theory Spec2Isabelle
  imports Main "HOL-Library.Sublist" "HOL-Library.Char_ord" "HOL-Library.List_Lexorder"
begin

section \<open>The command layer of golem: \<open>src/golem/commands/base.py\<close>\<close>

text \<open>
  The module defines one class per command line verb. Each \<open>run\<close> method receives the
  shared execution-context object \<open>test_execution\<close> and the parsed arguments, writes to
  the context, queries the catalog through \<open>golem.core.utils\<close> and hands the work to
  \<open>golem.core.test_runner\<close> or to a creation helper. The packages \<open>golem.core\<close> and
  \<open>golem.gui\<close> are imported by the module and are not part of its source: their
  functions are parameters of the model (the record \<open>collaborators\<close>), taken to be
  functions that return a result; calls made for their effect are written to a log.
\<close>

subsection \<open>Python values, names and exceptions\<close>

datatype pyval = PNone | PStr string | PInt int | PObj "(string \<times> string) list"

datatype payload = Msg string | MsgList "string list"

datatype error =
    CommandException payload
  | NameError string
  | AttributeError string

text \<open>The line feed of the Python literals \<open>'\n'\<close> and \<open>'\n\n'\<close>.\<close>

definition nl :: string where
  "nl = [CHR 0x0A]"

text \<open>\<open>sep.join(xs)\<close> on a list of strings.\<close>

fun join :: "string \<Rightarrow> string list \<Rightarrow> string" where
  "join sep [] = []"
| "join sep [x] = x"
| "join sep (x # y # ys) = x @ sep @ join sep (y # ys)"

text \<open>\<open>'{}'.format(v)\<close> for a value that is a string or \<open>None\<close>.\<close>

fun py_format :: "string option \<Rightarrow> string" where
  "py_format None = ''None''"
| "py_format (Some s) = s"

fun py_int :: "int option \<Rightarrow> pyval" where
  "py_int None = PNone"
| "py_int (Some n) = PInt n"

text \<open>
  The names the module binds at top level, in source order: its imports (lines 1 to 4)
  and its classes. A name that a method reads without assigning it is looked up here,
  then among the builtins; a name found in neither raises \<open>NameError\<close>.
\<close>

definition module_globals :: "(string \<times> pyval) list" where
  "module_globals =
    [(''os'', PObj [(''__name__'', ''os'')]),
     (''test_runner'', PObj [(''__name__'', ''golem.core.test_runner'')]),
     (''utils'', PObj [(''__name__'', ''golem.core.utils'')]),
     (''gui_start'', PObj [(''__name__'', ''golem.gui.gui_start'')]),
     (''test_case'', PObj [(''__name__'', ''golem.gui.test_case'')]),
     (''suite_module'', PObj [(''__name__'', ''golem.gui.suite'')]),
     (''BaseCommand'', PObj [(''__name__'', ''BaseCommand''), (''cmd'', ''None'')]),
     (''CommandException'', PObj [(''__name__'', ''CommandException'')]),
     (''RunCommand'', PObj [(''__name__'', ''RunCommand''), (''cmd'', ''run'')]),
     (''GuiCommand'', PObj [(''__name__'', ''GuiCommand''), (''cmd'', ''gui'')]),
     (''CreateProjectCommand'',
        PObj [(''__name__'', ''CreateProjectCommand''), (''cmd'', ''createproject'')]),
     (''CreateTestCommand'',
        PObj [(''__name__'', ''CreateTestCommand''), (''cmd'', ''createtest'')]),
     (''CreateSuiteCommand'',
        PObj [(''__name__'', ''CreateSuiteCommand''), (''cmd'', ''createsuite'')]),
     (''CreateUserCommand'',
        PObj [(''__name__'', ''CreateUserCommand''), (''cmd'', ''createuser'')]),
     (''CreateDirAdminCommand'',
        PObj [(''__name__'', ''CreateDirAdminCommand''), (''cmd'', ''createdirectory'')])]"

text \<open>The lower-case names of Python's \<open>builtins\<close> module.\<close>

definition builtin_names :: "string list" where
  "builtin_names =
    [''abs'', ''aiter'', ''all'', ''anext'', ''any'', ''ascii'', ''bin'', ''bool'',
     ''breakpoint'', ''bytearray'', ''bytes'', ''callable'', ''chr'', ''classmethod'',
     ''compile'', ''complex'', ''copyright'', ''credits'', ''delattr'', ''dict'', ''dir'',
     ''divmod'', ''enumerate'', ''eval'', ''exec'', ''exit'', ''filter'', ''float'',
     ''format'', ''frozenset'', ''getattr'', ''globals'', ''hasattr'', ''hash'', ''help'',
     ''hex'', ''id'', ''input'', ''int'', ''isinstance'', ''issubclass'', ''iter'', ''len'',
     ''license'', ''list'', ''locals'', ''map'', ''max'', ''memoryview'', ''min'', ''next'',
     ''object'', ''oct'', ''open'', ''ord'', ''pow'', ''print'', ''property'', ''quit'',
     ''range'', ''repr'', ''reversed'', ''round'', ''set'', ''setattr'', ''slice'',
     ''sorted'', ''staticmethod'', ''str'', ''sum'', ''super'', ''tuple'', ''type'',
     ''vars'', ''zip'']"

definition load_name :: "string \<Rightarrow> error + pyval" where
  "load_name n =
    (case map_of module_globals n of
       Some v \<Rightarrow> Inr v
     | None \<Rightarrow>
         if n \<in> set builtin_names then Inr (PObj [(''__name__'', n)])
         else Inl (NameError n))"

text \<open>Attribute access \<open>v.a\<close>.\<close>

fun getattr :: "pyval \<Rightarrow> string \<Rightarrow> error + string" where
  "getattr (PObj attrs) a =
    (case map_of attrs a of Some s \<Rightarrow> Inr s | None \<Rightarrow> Inl (AttributeError a))"
| "getattr v a = Inl (AttributeError a)"

subsection \<open>The execution context, the arguments and the collaborators\<close>

text \<open>
  The attributes of the shared \<open>test_execution\<close> object that the module reads or
  writes. An attribute that holds \<open>None\<close> is \<open>None\<close> here.
\<close>

record 's test_execution =
  root_path :: string
  project :: "string option"
  settings :: 's
  suite :: "string option"
  test :: "string option"
  thread_amount :: "int option"
  drivers :: "string list option"
  timestamp :: "string option"

text \<open>
  The namespace \<open>argparse\<close> builds for \<open>run\<close> (lines 28 to 43): \<open>project\<close> and
  \<open>test_or_suite\<close> default to the empty string, \<open>threads\<close> to 0 (and is \<open>None\<close> for a
  bare \<open>-t\<close>), \<open>drivers\<close> and \<open>timestamp\<close> to \<open>None\<close>.
\<close>

record run_args =
  a_project :: string
  test_or_suite :: string
  threads :: "int option"
  a_drivers :: "string list option"
  a_timestamp :: "string option"

record project_args =
  p_project :: string

record suite_args =
  s_project :: string
  s_suite :: string

record user_args =
  username :: string
  password :: string
  admin :: bool
  u_projects :: "string list"
  u_reports :: "string list"

text \<open>
  Calls made for their effect, in the order they happen. \<open>Run_suite\<close> carries the
  \<open>is_directory\<close> keyword as passed: \<open>None\<close> when the call leaves it out.
\<close>

datatype 't effect =
    Print "pyval list"
  | Display_tree_structure 't
  | Run_suite string string string "bool option"
  | Run_single_test_case string string string
  | Create_demo_project string
  | Create_new_project string string
  | New_suite pyval string string
  | Create_user pyval string string bool "string list" "string list"

text \<open>
  The functions of \<open>golem.core.utils\<close>, \<open>golem.core.test_runner\<close> and
  \<open>golem.gui.suite\<close> that the module calls. \<open>'s\<close> is the type of the settings, \<open>'t\<close>
  of the test case tree, \<open>'r\<close> of whatever the runner returns (the test outcomes).
\<close>

record ('s, 't, 'r) collaborators =
  get_projects :: "string \<Rightarrow> string list"
  get_project_settings :: "string \<Rightarrow> 's \<Rightarrow> 's"
  get_test_cases :: "string \<Rightarrow> string \<Rightarrow> 't"
  get_suites :: "string \<Rightarrow> string \<Rightarrow> string list"
  test_suite_exists :: "string \<Rightarrow> string \<Rightarrow> string \<Rightarrow> bool"
  is_first_level_directory :: "string \<Rightarrow> string \<Rightarrow> string \<Rightarrow> bool"
  test_case_exists :: "string \<Rightarrow> string \<Rightarrow> string \<Rightarrow> bool"
  run_suite :: "string \<Rightarrow> string \<Rightarrow> string \<Rightarrow> bool option \<Rightarrow> 'r"
  run_single_test_case :: "string \<Rightarrow> string \<Rightarrow> string \<Rightarrow> 'r"
  new_suite :: "pyval \<Rightarrow> string \<Rightarrow> string \<Rightarrow> string list"
  create_user ::
    "pyval \<Rightarrow> string \<Rightarrow> string \<Rightarrow> bool \<Rightarrow> string list \<Rightarrow> string list \<Rightarrow> string list"

text \<open>
  What a call of a \<open>run\<close> method leaves behind: the exception that escapes it, if
  any, the context as the method wrote it, and the log of its effects.
\<close>

record ('s, 't) outcome =
  raised :: "error option"
  ctx :: "'s test_execution"
  effects :: "'t effect list"

subsection \<open>\<open>RunCommand.run\<close> (lines 45 to 114)\<close>

text \<open>
  The usage branch of line 53: \<open>parser.usage\<close> is evaluated first, while the list
  literal is built; the project list is read only after that.
\<close>

definition usage_projects ::
  "('s, 't, 'r) collaborators \<Rightarrow> 's test_execution \<Rightarrow> 't effect list \<Rightarrow> ('s, 't) outcome" where
  "usage_projects U te out =
    (case load_name ''parser'' of
       Inl e \<Rightarrow> \<lparr>raised = Some e, ctx = te, effects = out\<rparr>
     | Inr p \<Rightarrow>
         (case getattr p ''usage'' of
            Inl e \<Rightarrow> \<lparr>raised = Some e, ctx = te, effects = out\<rparr>
          | Inr u \<Rightarrow>
              (let msg = [''Usage:'', u, nl @ nl, ''Project List:'']
                         @ map (\<lambda>proj. ''> '' @ proj) (get_projects U (root_path te))
               in \<lparr>raised = Some (CommandException (Msg (join nl msg))),
                   ctx = te, effects = out\<rparr>)))"

text \<open>
  The usage branch of line 69, entered with \<open>test_execution.project\<close> already set to
  \<open>p\<close>: again \<open>parser.usage\<close> comes first, then the tree of test cases is displayed
  and the suites are listed; the exception carries the list itself.
\<close>

definition usage_targets ::
  "('s, 't, 'r) collaborators \<Rightarrow> string \<Rightarrow> 's test_execution \<Rightarrow> 't effect list
    \<Rightarrow> ('s, 't) outcome" where
  "usage_targets U p te out =
    (case load_name ''parser'' of
       Inl e \<Rightarrow> \<lparr>raised = Some e, ctx = te, effects = out\<rparr>
     | Inr ps \<Rightarrow>
         (case getattr ps ''usage'' of
            Inl e \<Rightarrow> \<lparr>raised = Some e, ctx = te, effects = out\<rparr>
          | Inr u \<Rightarrow>
              (let msg = [''Usage: '' @ u, ''Test Cases:''];
                   test_cases = get_test_cases U (root_path te) p;
                   out' = out @ [Display_tree_structure test_cases];
                   msg' = msg @ [''Test Suites:'']
                          @ map (\<lambda>s. ''> '' @ s) (get_suites U (root_path te) p)
               in \<lparr>raised = Some (CommandException (MsgList msg')),
                   ctx = te, effects = out'\<rparr>)))"

definition RunCommand_run ::
  "('s, 't, 'r) collaborators \<Rightarrow> run_args \<Rightarrow> 's test_execution \<Rightarrow> ('s, 't) outcome" where
  "RunCommand_run U a te0 =
    (let te = te0\<lparr>thread_amount := threads a, drivers := a_drivers a,
                  timestamp := a_timestamp a\<rparr>;
         out = [Print [PStr ''args.threads'', py_int (threads a)]];
         root = root_path te;
         p = a_project a;
         t = test_or_suite a
     in if p = [] then usage_projects U te out
        else if p \<notin> set (get_projects U root) then
          \<lparr>raised = Some (CommandException (Msg
               (''Error: the project '' @ py_format (project te) @ '' does not exist''))),
            ctx = te, effects = out\<rparr>
        else
          (let te1 = te\<lparr>project := Some p,
                        settings := get_project_settings U p (settings te)\<rparr>
           in if t = [] then usage_targets U p te1 out
              else if test_suite_exists U root p t then
                (let te2 = te1\<lparr>suite := Some t\<rparr>;
                     r = run_suite U root p t None
                 in \<lparr>raised = None, ctx = te2,
                     effects = out @ [Run_suite root p t None]\<rparr>)
              else if is_first_level_directory U root p t then
                (let te2 = te1\<lparr>suite := Some t\<rparr>;
                     r = run_suite U root p t (Some True)
                 in \<lparr>raised = None, ctx = te2,
                     effects = out @ [Run_suite root p t (Some True)]\<rparr>)
              else if test_case_exists U root p t then
                (let te2 = te1\<lparr>test := Some t\<rparr>;
                     r = run_single_test_case U root p t
                 in \<lparr>raised = None, ctx = te2,
                     effects = out @ [Run_single_test_case root p t]\<rparr>)
              else
                \<lparr>raised = Some (CommandException (Msg
                     (''Error: the value '' @ t
                      @ '' does not match an existing suite or test''))),
                  ctx = te1, effects = out\<rparr>))"

text \<open>The log entries that start a test execution.\<close>

fun is_execution :: "'t effect \<Rightarrow> bool" where
  "is_execution (Run_suite r p s d) = True"
| "is_execution (Run_single_test_case r p t) = True"
| "is_execution e = False"

text \<open>The log entries that create something on disk.\<close>

fun is_creation :: "'t effect \<Rightarrow> bool" where
  "is_creation (Create_demo_project r) = True"
| "is_creation (Create_new_project r p) = True"
| "is_creation (New_suite r p s) = True"
| "is_creation (Create_user r u pw ad ps rs) = True"
| "is_creation e = False"

subsection \<open>\<open>CreateProjectCommand.run\<close> (lines 141 to 152)\<close>

definition CreateProjectCommand_run ::
  "('s, 't, 'r) collaborators \<Rightarrow> project_args \<Rightarrow> 's test_execution \<Rightarrow> ('s, 't) outcome" where
  "CreateProjectCommand_run U a te =
    (let root = root_path te in
     if p_project a \<in> set (get_projects U root) then
       \<lparr>raised = Some (CommandException (Msg
            (''Error: a project with the name '' @ [CHR 0x27] @ p_project a @ [CHR 0x27]
             @ '' already exists''))),
         ctx = te, effects = []\<rparr>
     else if p_project a = ''demo'' then
       \<lparr>raised = None, ctx = te, effects = [Create_demo_project root]\<rparr>
     else
       \<lparr>raised = None, ctx = te, effects = [Create_new_project root (p_project a)]\<rparr>)"

subsection \<open>\<open>CreateSuiteCommand.run\<close> (lines 185 to 192)\<close>

text \<open>
  The method assigns no \<open>root_path\<close> (it reads \<open>test_execution.root_path\<close> in the
  membership test only), so the argument \<open>root_path\<close> of line 190 is a global lookup.
\<close>

definition CreateSuiteCommand_run ::
  "('s, 't, 'r) collaborators \<Rightarrow> suite_args \<Rightarrow> 's test_execution \<Rightarrow> ('s, 't) outcome" where
  "CreateSuiteCommand_run U a te =
    (if s_project a \<notin> set (get_projects U (root_path te)) then
       \<lparr>raised = Some (CommandException (Msg
            ''Error: a project with that name does not exist'')),
         ctx = te, effects = []\<rparr>
     else
       (case load_name ''root_path'' of
          Inl e \<Rightarrow> \<lparr>raised = Some e, ctx = te, effects = []\<rparr>
        | Inr rp \<Rightarrow>
            (let errors = new_suite U rp (s_project a) (s_suite a);
                 out = [New_suite rp (s_project a) (s_suite a)]
             in if errors \<noteq> [] then
                  \<lparr>raised = Some (CommandException (Msg (join nl errors))),
                    ctx = te, effects = out\<rparr>
                else \<lparr>raised = None, ctx = te, effects = out\<rparr>)))"

subsection \<open>\<open>CreateUserCommand.run\<close> (lines 208 to 215)\<close>

definition CreateUserCommand_run ::
  "('s, 't, 'r) collaborators \<Rightarrow> user_args \<Rightarrow> 's test_execution \<Rightarrow> ('s, 't) outcome" where
  "CreateUserCommand_run U a te =
    (case load_name ''root_path'' of
       Inl e \<Rightarrow> \<lparr>raised = Some e, ctx = te, effects = []\<rparr>
     | Inr rp \<Rightarrow>
         (let errors = create_user U rp (username a) (password a) (admin a)
                         (u_projects a) (u_reports a);
              out = [Create_user rp (username a) (password a) (admin a)
                       (u_projects a) (u_reports a)]
          in if errors \<noteq> [] then
               \<lparr>raised = Some (CommandException (Msg (join nl errors))),
                 ctx = te, effects = out\<rparr>
             else
               \<lparr>raised = None, ctx = te,
                 effects = out @ [Print [PStr (''User '' @ username a
                                    @ '' was created successfully'')]]\<rparr>))"

subsection \<open>The catalog of the specification\<close>









subsection \<open>A small installation\<close>

text \<open>
  One project, \<open>demo\<close>. The name \<open>login\<close> is a suite and a directory, \<open>checkout\<close> a
  directory and a test case, \<open>smoke\<close> a suite, \<open>search\<close> a test case.
\<close>

definition example_collab :: "(unit, unit, unit) collaborators" where
  "example_collab =
    \<lparr>get_projects = (\<lambda>root. [''demo'']),
     get_project_settings = (\<lambda>p s. s),
     get_test_cases = (\<lambda>root p. ()),
     get_suites = (\<lambda>root p. [''smoke'', ''login'']),
     test_suite_exists = (\<lambda>root p t. t = ''smoke'' \<or> t = ''login''),
     is_first_level_directory = (\<lambda>root p t. t = ''login'' \<or> t = ''checkout''),
     test_case_exists = (\<lambda>root p t. t = ''checkout'' \<or> t = ''search''),
     run_suite = (\<lambda>root p s d. ()),
     run_single_test_case = (\<lambda>root p t. ()),
     new_suite = (\<lambda>root p s. []),
     create_user = (\<lambda>root u pw ad ps rs. [])\<rparr>"

definition example_te :: "unit test_execution" where
  "example_te =
    \<lparr>root_path = ''/golem'', project = None, settings = (), suite = None, test = None,
     thread_amount = None, drivers = None, timestamp = None\<rparr>"

definition example_args :: "string \<Rightarrow> string \<Rightarrow> run_args" where
  "example_args p t =
    \<lparr>a_project = p, test_or_suite = t, threads = Some 2,
     a_drivers = Some [''chrome''], a_timestamp = None\<rparr>"


section \<open>Properties\<close>

subsection \<open>Name lookup\<close>

lemma load_name_parser: "load_name ''parser'' = Inl (NameError ''parser'')"
  by (simp add: load_name_def module_globals_def builtin_names_def)

lemma load_name_root_path: "load_name ''root_path'' = Inl (NameError ''root_path'')"
  by (simp add: load_name_def module_globals_def builtin_names_def)

lemma usage_projects_raises:
  "usage_projects U te out = \<lparr>raised = Some (NameError ''parser''), ctx = te, effects = out\<rparr>"
  by (simp add: usage_projects_def load_name_parser)

lemma usage_targets_raises:
  "usage_targets U p te out = \<lparr>raised = Some (NameError ''parser''), ctx = te, effects = out\<rparr>"
  by (simp add: usage_targets_def load_name_parser)

subsection \<open>The branches of \<open>RunCommand.run\<close>\<close>

text \<open>
  C2: when the project exists, the target is not empty and is neither a suite, nor a
  directory, nor a test case, \<open>run\<close> raises a \<open>CommandException\<close> whose message contains
  the target, and the log holds no test execution.
\<close>

theorem run_unresolved_target:
  assumes "a_project a \<noteq> []" and "a_project a \<in> set (get_projects U (root_path te))"
    and "test_or_suite a \<noteq> []"
    and "\<not> test_suite_exists U (root_path te) (a_project a) (test_or_suite a)"
    and "\<not> is_first_level_directory U (root_path te) (a_project a) (test_or_suite a)"
    and "\<not> test_case_exists U (root_path te) (a_project a) (test_or_suite a)"
  shows "raised (RunCommand_run U a te) =
           Some (CommandException (Msg (''Error: the value '' @ test_or_suite a
             @ '' does not match an existing suite or test'')))
         \<and> filter is_execution (effects (RunCommand_run U a te)) = []"
  using assms by (simp add: RunCommand_run_def Let_def)

theorem run_unresolved_target_witness:
  "raised (RunCommand_run example_collab (example_args ''demo'' ''nothing'') example_te) =
     Some (CommandException (Msg
       ''Error: the value nothing does not match an existing suite or test''))
   \<and> filter is_execution
       (effects (RunCommand_run example_collab (example_args ''demo'' ''nothing'') example_te))
     = []"
  using run_unresolved_target
    [of "example_args ''demo'' ''nothing''" example_collab example_te]
  by (simp add: example_collab_def example_args_def example_te_def)

text \<open>
  C1: with an existing project and a target that is not empty, the target is tested as
  a declared suite first, as a directory second and as a test case third, and the first
  test that succeeds decides: the log then holds, after the line printed at entry, the
  one call of that branch (\<open>run_suite\<close>, \<open>run_suite\<close> with \<open>is_directory=True\<close>, or
  \<open>run_single_test_case\<close>) and nothing else, and nothing is raised.
\<close>

theorem run_resolution_priority:
  assumes "a_project a \<noteq> []" and "a_project a \<in> set (get_projects U (root_path te))"
    and "test_or_suite a \<noteq> []"
  shows "(test_suite_exists U (root_path te) (a_project a) (test_or_suite a) \<longrightarrow>
            raised (RunCommand_run U a te) = None
            \<and> effects (RunCommand_run U a te) =
                [Print [PStr ''args.threads'', py_int (threads a)],
                 Run_suite (root_path te) (a_project a) (test_or_suite a) None])
       \<and> (\<not> test_suite_exists U (root_path te) (a_project a) (test_or_suite a)
          \<and> is_first_level_directory U (root_path te) (a_project a) (test_or_suite a) \<longrightarrow>
            raised (RunCommand_run U a te) = None
            \<and> effects (RunCommand_run U a te) =
                [Print [PStr ''args.threads'', py_int (threads a)],
                 Run_suite (root_path te) (a_project a) (test_or_suite a) (Some True)])
       \<and> (\<not> test_suite_exists U (root_path te) (a_project a) (test_or_suite a)
          \<and> \<not> is_first_level_directory U (root_path te) (a_project a) (test_or_suite a)
          \<and> test_case_exists U (root_path te) (a_project a) (test_or_suite a) \<longrightarrow>
            raised (RunCommand_run U a te) = None
            \<and> effects (RunCommand_run U a te) =
                [Print [PStr ''args.threads'', py_int (threads a)],
                 Run_single_test_case (root_path te) (a_project a) (test_or_suite a)])"
  using assms by (simp add: RunCommand_run_def Let_def)

theorem run_resolution_priority_witness:
  "effects (RunCommand_run example_collab (example_args ''demo'' ''login'') example_te) =
     [Print [PStr ''args.threads'', PInt 2], Run_suite ''/golem'' ''demo'' ''login'' None]
   \<and> effects (RunCommand_run example_collab (example_args ''demo'' ''checkout'') example_te) =
     [Print [PStr ''args.threads'', PInt 2],
      Run_suite ''/golem'' ''demo'' ''checkout'' (Some True)]
   \<and> effects (RunCommand_run example_collab (example_args ''demo'' ''search'') example_te) =
     [Print [PStr ''args.threads'', PInt 2],
      Run_single_test_case ''/golem'' ''demo'' ''search'']"
  using run_resolution_priority
      [of "example_args ''demo'' ''login''" example_collab example_te]
    run_resolution_priority
      [of "example_args ''demo'' ''checkout''" example_collab example_te]
    run_resolution_priority
      [of "example_args ''demo'' ''search''" example_collab example_te]
  by (simp add: example_collab_def example_args_def example_te_def)



text \<open>
  C4, at a concrete input: the project \<open>ghost\<close> does not exist and the context holds
  no project yet. The exception is raised before any execution, and its message is
  formatted from \<open>test_execution.project\<close>, which line 64 has not assigned at that
  point, so it reads \<open>None\<close> in place of the project that was asked for.
\<close>

theorem run_unknown_project_message:
  "RunCommand_run example_collab (example_args ''ghost'' ''smoke'') example_te =
     \<lparr>raised = Some (CommandException (Msg ''Error: the project None does not exist'')),
      ctx = example_te\<lparr>thread_amount := Some 2, drivers := Some [''chrome''],
                        timestamp := None\<rparr>,
      effects = [Print [PStr ''args.threads'', PInt 2]]\<rparr>"
  by (simp add: RunCommand_run_def Let_def example_collab_def example_args_def example_te_def)

text \<open>
  C8: with an empty project, or an existing project and an empty target, \<open>run\<close>
  evaluates \<open>parser.usage\<close>; the module binds no \<open>parser\<close>, so a \<open>NameError\<close> escapes
  and the usage message is never built.
\<close>

theorem run_parser_unbound:
  assumes "a_project a = []
     \<or> (a_project a \<in> set (get_projects U (root_path te)) \<and> test_or_suite a = [])"
  shows "raised (RunCommand_run U a te) = Some (NameError ''parser'')
     \<and> effects (RunCommand_run U a te) = [Print [PStr ''args.threads'', py_int (threads a)]]"
  using assms
  by (auto simp add: RunCommand_run_def Let_def usage_projects_raises usage_targets_raises)

theorem run_parser_unbound_witness:
  "raised (RunCommand_run example_collab (example_args '''' ''smoke'') example_te) =
     Some (NameError ''parser'')
   \<and> raised (RunCommand_run example_collab (example_args ''demo'' '''') example_te) =
     Some (NameError ''parser'')"
  using run_parser_unbound [of "example_args '''' ''smoke''" example_collab example_te]
    run_parser_unbound [of "example_args ''demo'' ''''" example_collab example_te]
  by (simp add: example_collab_def example_args_def example_te_def)

subsection \<open>What \<open>RunCommand.run\<close> writes\<close>

text \<open>
  C6, as stated, fails: after resolving the suite \<open>smoke\<close> the shared context is not
  the one \<open>run\<close> was given.
\<close>

theorem run_changes_context:
  "ctx (RunCommand_run example_collab (example_args ''demo'' ''smoke'') example_te)
     \<noteq> example_te"
  by (simp add: RunCommand_run_def Let_def example_collab_def example_args_def example_te_def)

text \<open>
  C6, as amended: resolving a target creates nothing and leaves \<open>root_path\<close> of the
  shared context as it was, but it does write to the context: \<open>thread_amount\<close>,
  \<open>drivers\<close> and \<open>timestamp\<close> take the command line values in every case, \<open>project\<close>
  and \<open>settings\<close> are set when the project exists, \<open>suite\<close> when the target is a suite
  or a directory, \<open>test\<close> when it is a test case.
\<close>

theorem run_context_writes:
  "root_path (ctx (RunCommand_run U a te)) = root_path te
   \<and> thread_amount (ctx (RunCommand_run U a te)) = threads a
   \<and> drivers (ctx (RunCommand_run U a te)) = a_drivers a
   \<and> timestamp (ctx (RunCommand_run U a te)) = a_timestamp a
   \<and> project (ctx (RunCommand_run U a te)) =
       (if a_project a \<noteq> [] \<and> a_project a \<in> set (get_projects U (root_path te))
        then Some (a_project a) else project te)
   \<and> settings (ctx (RunCommand_run U a te)) =
       (if a_project a \<noteq> [] \<and> a_project a \<in> set (get_projects U (root_path te))
        then get_project_settings U (a_project a) (settings te) else settings te)
   \<and> suite (ctx (RunCommand_run U a te)) =
       (if a_project a \<noteq> [] \<and> a_project a \<in> set (get_projects U (root_path te))
           \<and> test_or_suite a \<noteq> []
           \<and> (test_suite_exists U (root_path te) (a_project a) (test_or_suite a)
              \<or> is_first_level_directory U (root_path te) (a_project a) (test_or_suite a))
        then Some (test_or_suite a) else suite te)
   \<and> test (ctx (RunCommand_run U a te)) =
       (if a_project a \<noteq> [] \<and> a_project a \<in> set (get_projects U (root_path te))
           \<and> test_or_suite a \<noteq> []
           \<and> \<not> test_suite_exists U (root_path te) (a_project a) (test_or_suite a)
           \<and> \<not> is_first_level_directory U (root_path te) (a_project a) (test_or_suite a)
           \<and> test_case_exists U (root_path te) (a_project a) (test_or_suite a)
        then Some (test_or_suite a) else test te)
   \<and> filter is_creation (effects (RunCommand_run U a te)) = []"
  by (simp add: RunCommand_run_def Let_def usage_projects_raises usage_targets_raises)

theorem run_context_writes_witness:
  "ctx (RunCommand_run example_collab (example_args ''demo'' ''search'') example_te) =
     \<lparr>root_path = ''/golem'', project = Some ''demo'', settings = (), suite = None,
      test = Some ''search'', thread_amount = Some 2, drivers = Some [''chrome''],
      timestamp = None\<rparr>"
  using run_context_writes [of example_collab "example_args ''demo'' ''search''" example_te]
  by (simp add: example_collab_def example_args_def example_te_def)




subsection \<open>The creation commands\<close>

text \<open>
  C10: \<open>CreateProjectCommand.run\<close> raises exactly when the project exists already, and
  then a \<open>CommandException\<close> naming it; otherwise the name \<open>demo\<close> creates the demo
  project and any other name a new project of that name. The context is not written.
\<close>

theorem create_project_cases:
  "(raised (CreateProjectCommand_run U a te) \<noteq> None
      \<longleftrightarrow> p_project a \<in> set (get_projects U (root_path te)))
   \<and> (p_project a \<in> set (get_projects U (root_path te)) \<longrightarrow>
        raised (CreateProjectCommand_run U a te) =
          Some (CommandException (Msg (''Error: a project with the name '' @ [CHR 0x27]
            @ p_project a @ [CHR 0x27] @ '' already exists'')))
        \<and> effects (CreateProjectCommand_run U a te) = [])
   \<and> (p_project a \<notin> set (get_projects U (root_path te)) \<and> p_project a = ''demo'' \<longrightarrow>
        effects (CreateProjectCommand_run U a te) = [Create_demo_project (root_path te)])
   \<and> (p_project a \<notin> set (get_projects U (root_path te)) \<and> p_project a \<noteq> ''demo'' \<longrightarrow>
        effects (CreateProjectCommand_run U a te) =
          [Create_new_project (root_path te) (p_project a)])
   \<and> ctx (CreateProjectCommand_run U a te) = te"
  by (simp add: CreateProjectCommand_run_def Let_def)

theorem create_project_cases_witness:
  "raised (CreateProjectCommand_run example_collab \<lparr>p_project = ''demo''\<rparr> example_te) =
     Some (CommandException (Msg
       (''Error: a project with the name '' @ [CHR 0x27] @ ''demo'' @ [CHR 0x27]
        @ '' already exists'')))
   \<and> effects (CreateProjectCommand_run example_collab \<lparr>p_project = ''shop''\<rparr> example_te) =
     [Create_new_project ''/golem'' ''shop'']
   \<and> raised (CreateProjectCommand_run example_collab \<lparr>p_project = ''shop''\<rparr> example_te)
     = None
   \<and> effects (CreateProjectCommand_run (example_collab\<lparr>get_projects := (\<lambda>root. [])\<rparr>)
       \<lparr>p_project = ''demo''\<rparr> example_te) = [Create_demo_project ''/golem'']"
  using create_project_cases [of example_collab "\<lparr>p_project = ''demo''\<rparr>" example_te]
    create_project_cases [of example_collab "\<lparr>p_project = ''shop''\<rparr>" example_te]
    create_project_cases [of "example_collab\<lparr>get_projects := (\<lambda>root. [])\<rparr>"
      "\<lparr>p_project = ''demo''\<rparr>" example_te]
  by (simp add: example_collab_def example_te_def)

text \<open>
  C9: \<open>CreateSuiteCommand.run\<close> for an existing project, and \<open>CreateUserCommand.run\<close>
  always, read the name \<open>root_path\<close>, which neither the method nor the module binds:
  a \<open>NameError\<close> escapes and nothing is created.
\<close>

theorem create_commands_root_path_unbound:
  "(s_project a \<in> set (get_projects U (root_path te)) \<longrightarrow>
      raised (CreateSuiteCommand_run U a te) = Some (NameError ''root_path'')
      \<and> effects (CreateSuiteCommand_run U a te) = [])
   \<and> raised (CreateUserCommand_run U b te) = Some (NameError ''root_path'')
   \<and> effects (CreateUserCommand_run U b te) = []"
  by (simp add: CreateSuiteCommand_run_def CreateUserCommand_run_def load_name_root_path)

theorem create_commands_root_path_unbound_witness:
  "raised (CreateSuiteCommand_run example_collab
      \<lparr>s_project = ''demo'', s_suite = ''nightly''\<rparr> example_te)
     = Some (NameError ''root_path'')
   \<and> effects (CreateSuiteCommand_run example_collab
      \<lparr>s_project = ''demo'', s_suite = ''nightly''\<rparr> example_te) = []
   \<and> raised (CreateUserCommand_run example_collab
      \<lparr>username = ''ana'', password = ''secret'', admin = False, u_projects = [],
       u_reports = []\<rparr> example_te) = Some (NameError ''root_path'')"
  using create_commands_root_path_unbound
    [of "\<lparr>s_project = ''demo'', s_suite = ''nightly''\<rparr>" example_collab example_te
        "\<lparr>username = ''ana'', password = ''secret'', admin = False, u_projects = [],
          u_reports = []\<rparr>"]
  by (simp add: example_collab_def example_te_def)

subsection \<open>Directory suites\<close>









end
